theory Spec2Isabelle
  imports Complex_Main "HOL-Library.Sublist"
begin

section \<open>Liquidation-cascade simulator (src/lib/impact-utils.ts)\<close>

text \<open>
  JavaScript numbers are idealised as real numbers: rounding, infinities and NaN are
  outside this model, and \<open>Math.exp\<close> is the real exponential function.  The one place
  where the program itself looks at NaN is the bid filter; there the numeric reading
  \<open>Number(b.px)\<close> of a string is an optional real, \<open>None\<close> standing for NaN.
  The bin prices of the program are a hundred subtractions in double precision and differ
  from the exact ones by about 1e-13, so a target that is exactly a bin price can fall on
  either side of the program's comparison, which then takes the neighbouring bin.  The
  statements below speak of the scanned bins; the instances that name a bin outright use
  a target strictly inside a bin.
  Division by zero occurs only for a current price of 0; there the program computes NaN
  for the drawdown, takes the branch without pressure and adds 0, and the model, in which
  \<open>x / 0 = 0\<close>, adds 0 as well.
\<close>

subsection \<open>Data model\<close>

record LiquidationHeatmapEntry =
  coin :: string
  priceBinIndex :: int
  priceBinStart :: real
  priceBinEnd :: real
  liquidationValue :: real
  positionsCount :: int
  mostImpactedSegment :: int

text \<open>\<open>px\<close> and \<open>sz\<close> hold \<open>Number(b.px)\<close> and \<open>Number(b.sz)\<close>; the field \<open>n\<close> of the
  source is \<open>level_n\<close>.\<close>

record L2BookLevel =
  px :: "real option"
  sz :: "real option"
  level_n :: int

record ParsedBid =
  bid_px :: real
  bid_sz :: real

text \<open>The fields \<open>k\<close>, \<open>a\<close>, \<open>x0\<close> of the source carry the prefix \<open>param_\<close>.\<close>

record SimulationParams =
  param_k :: real
  param_a :: real
  param_x0 :: real
  longRatio :: real

text \<open>A template literal is the list of its parts: literal text and numbers printed by
  \<open>toFixed\<close> with a number of digits.\<close>

datatype text_part = Lit string | Fixed real nat

record CascadeStep =
  startPrice :: real
  endPrice :: real
  liquidatedValue :: real
  description :: "text_part list"

record CascadeResult =
  finalPrice :: real
  totalLiquidationTriggered :: real
  steps :: "CascadeStep list"

text \<open>The local variables that the scanning loop updates.\<close>

record scan_state =
  currentBinPrice :: real
  cumSellHype :: real
  cumBidHype :: real
  floorPrice :: real
  foundFloor :: bool
  steps_acc :: "CascadeStep list"

subsection \<open>The function\<close>

definition default_params :: SimulationParams where
  "default_params = \<lparr>param_k = 18 / 100, param_a = 14, param_x0 = 5 / 100, longRatio = 6 / 10\<rparr>"

definition BINS_COUNT :: nat where
  "BINS_COUNT = 100"

definition RANGE_PCT :: real where
  "RANGE_PCT = 20 / 100"

definition binStep_of :: "real \<Rightarrow> real" where
  "binStep_of currentPriceNum = (currentPriceNum * RANGE_PCT) / real BINS_COUNT"

text \<open>Lines 49-52: read the numbers, drop the entries with a NaN, sort by price, highest
  first (the sort of the source is stable, as \<open>sort_key\<close> is).\<close>

definition parse_bid :: "L2BookLevel \<Rightarrow> ParsedBid option" where
  "parse_bid b =
     (case px b of
        None \<Rightarrow> None
      | Some p \<Rightarrow> (case sz b of None \<Rightarrow> None | Some s \<Rightarrow> Some \<lparr>bid_px = p, bid_sz = s\<rparr>))"

definition activeBids_of :: "L2BookLevel list \<Rightarrow> ParsedBid list" where
  "activeBids_of bids = sort_key (\<lambda>b. - bid_px b) (List.map_filter parse_bid bids)"

text \<open>Lines 86-90: the bids whose price lies in the bin are added to the running depth.\<close>

definition add_bid :: "real \<Rightarrow> real \<Rightarrow> ParsedBid \<Rightarrow> real \<Rightarrow> real" where
  "add_bid binPrice binStep bid acc =
     (if bid_px bid \<ge> binPrice \<and> bid_px bid < binPrice + binStep then acc + bid_sz bid else acc)"

text \<open>Lines 73-79: the sell pressure of one bin.\<close>

definition stepSellHype_of :: "real \<Rightarrow> real \<Rightarrow> SimulationParams \<Rightarrow> real \<Rightarrow> real" where
  "stepSellHype_of currentPriceNum OI_long params binPrice =
     (let drawdownPct = (currentPriceNum - binPrice) / currentPriceNum in
      if drawdownPct > param_x0 params
      then (let intensity = param_k params * exp (param_a params * (drawdownPct - param_x0 params))
            in OI_long * intensity * (binStep_of currentPriceNum / currentPriceNum))
      else 0)"

definition intersection_step :: "real \<Rightarrow> real \<Rightarrow> real \<Rightarrow> CascadeStep" where
  "intersection_step currentPriceNum fl cumSell =
     \<lparr>startPrice = currentPriceNum, endPrice = fl, liquidatedValue = cumSell * fl,
      description = [Lit ''Cumulative intersection hit at $'', Fixed fl 3,
                     Lit ''. Total estimated pressure: $'', Fixed (cumSell * fl / 1000) 1,
                     Lit ''K'']\<rparr>"

definition scanning_step :: "real \<Rightarrow> real \<Rightarrow> real \<Rightarrow> real \<Rightarrow> real \<Rightarrow> CascadeStep" where
  "scanning_step binPrice binStep stepSell cumSell cumBid =
     \<lparr>startPrice = binPrice + binStep, endPrice = binPrice,
      liquidatedValue = stepSell * binPrice,
      description = [Lit ''Scanning price $'', Fixed binPrice 2,
                     Lit '': Sell ($'', Fixed (cumSell * binPrice / 1000) 1,
                     Lit ''K) vs Depth ($'', Fixed (cumBid * binPrice / 1000) 1,
                     Lit ''K)'']\<rparr>"

definition no_floor_step :: "real \<Rightarrow> real \<Rightarrow> real \<Rightarrow> CascadeStep" where
  "no_floor_step currentPriceNum fl cumSell =
     \<lparr>startPrice = currentPriceNum, endPrice = fl, liquidatedValue = cumSell * fl,
      description =
        [Lit ''No total cascade floor found. Liquidity depth exceeds estimated sell pressure at target.'']\<rparr>"

text \<open>Lines 68-117: the body of the loop, for the bin with index \<open>i\<close>.\<close>

definition scan_bin ::
  "real \<Rightarrow> real \<Rightarrow> real \<Rightarrow> SimulationParams \<Rightarrow> ParsedBid list \<Rightarrow> nat \<Rightarrow> scan_state \<Rightarrow> scan_state"
where
  "scan_bin targetPriceNum currentPriceNum OI_long params activeBids i s =
     (let binStep = binStep_of currentPriceNum;
          binPrice = currentBinPrice s - binStep;
          stepSell = stepSellHype_of currentPriceNum OI_long params binPrice;
          cumSell = cumSellHype s + stepSell;
          cumBid = fold (add_bid binPrice binStep) activeBids (cumBidHype s);
          hit = (\<not> foundFloor s \<and> binPrice \<le> targetPriceNum \<and> cumSell \<ge> cumBid);
          fl = (if hit then binPrice else floorPrice s);
          found = (foundFloor s \<or> hit);
          steps1 = (if hit then steps_acc s @ [intersection_step currentPriceNum fl cumSell]
                    else steps_acc s);
          steps2 = (if i mod 25 = 0 \<and> binPrice \<le> targetPriceNum \<and> \<not> found
                    then steps1 @ [scanning_step binPrice binStep stepSell cumSell cumBid]
                    else steps1)
      in \<lparr>currentBinPrice = binPrice, cumSellHype = cumSell, cumBidHype = cumBid,
          floorPrice = fl, foundFloor = found, steps_acc = steps2\<rparr>)"

text \<open>Lines 60-64: the variables before the loop.\<close>

definition scan_init :: "real \<Rightarrow> real \<Rightarrow> scan_state" where
  "scan_init targetPriceNum currentPriceNum =
     \<lparr>currentBinPrice = currentPriceNum, cumSellHype = 0, cumBidHype = 0,
      floorPrice = targetPriceNum, foundFloor = False, steps_acc = []\<rparr>"

text \<open>The state after the first \<open>n\<close> rounds of the loop; the function runs \<open>BINS_COUNT\<close>
  of them.\<close>

definition scan_upto ::
  "real \<Rightarrow> real \<Rightarrow> real \<Rightarrow> SimulationParams \<Rightarrow> ParsedBid list \<Rightarrow> nat \<Rightarrow> scan_state"
where
  "scan_upto targetPriceNum currentPriceNum OI_long params activeBids n =
     fold (scan_bin targetPriceNum currentPriceNum OI_long params activeBids) [0..<n]
       (scan_init targetPriceNum currentPriceNum)"

definition scan_all ::
  "real \<Rightarrow> real \<Rightarrow> real \<Rightarrow> L2BookLevel list \<Rightarrow> SimulationParams \<Rightarrow> scan_state"
where
  "scan_all targetPrice currentPrice openInterest bids params =
     scan_upto targetPrice currentPrice (openInterest * longRatio params) params
       (activeBids_of bids) BINS_COUNT"

text \<open>Lines 120-135: the fallback when no floor was found, and the result.\<close>

definition simulateLongCascade ::
  "real \<Rightarrow> real \<Rightarrow> real \<Rightarrow> LiquidationHeatmapEntry list \<Rightarrow> L2BookLevel list \<Rightarrow> SimulationParams
     \<Rightarrow> CascadeResult"
where
  "simulateLongCascade targetPrice currentPrice openInterest heatmap bids params =
     (let s = scan_all targetPrice currentPrice openInterest bids params;
          fl = (if \<not> foundFloor s then targetPrice else floorPrice s);
          st = (if \<not> foundFloor s
                then steps_acc s @ [no_floor_step currentPrice fl (cumSellHype s)]
                else steps_acc s)
      in \<lparr>finalPrice = fl, totalLiquidationTriggered = cumSellHype s * fl, steps = st\<rparr>)"

text \<open>Bin \<open>i\<close> (counted from 0) is at or below the target and the cumulative sell pressure
  there has reached the cumulative bid depth: the test of lines 95-96 without the flag.\<close>

definition floor_hit ::
  "real \<Rightarrow> real \<Rightarrow> real \<Rightarrow> SimulationParams \<Rightarrow> ParsedBid list \<Rightarrow> nat \<Rightarrow> bool"
where
  "floor_hit t c oi p ab i =
     (let s = scan_upto t c oi p ab (Suc i)
      in currentBinPrice s \<le> t \<and> cumSellHype s \<ge> cumBidHype s)"

text \<open>The increment of section 4.1, step 3 of the specification, in its words.\<close>

definition spec_bin_pressure :: "real \<Rightarrow> SimulationParams \<Rightarrow> real \<Rightarrow> real \<Rightarrow> real \<Rightarrow> real" where
  "spec_bin_pressure openInterest params currentPrice binStep binPrice =
     (let longOpenInterest = openInterest * longRatio params;
          drawdown = (currentPrice - binPrice) / currentPrice
      in if drawdown > param_x0 params
         then longOpenInterest * param_k params
                * exp (param_a params * (drawdown - param_x0 params)) * (binStep / currentPrice)
         else 0)"

section \<open>Trigger engine and position monitor (the simulator page)\<close>

text \<open>
  Times are milliseconds since the epoch, as integers.  \<open>checkTriggers\<close> calls
  \<open>openPosition\<close> for its effect; the model returns the list of these calls in the
  order in which they are made.  The end time is kept as a number of milliseconds (the
  source passes its ISO rendering).
\<close>

subsection \<open>Data model\<close>

datatype Side = BUY | SELL

datatype Status = OPEN | CLOSED_TP | CLOSED_SL | CLOSED_TIME

text \<open>The fields of \<open>EnrichedTwap\<close> that \<open>checkTriggers\<close> reads.  \<open>twap_price\<close> is
  \<open>t.price\<close>, which the declared type does not have: \<open>None\<close> is \<open>undefined\<close>.\<close>

record EnrichedTwap =
  twap_id :: string
  twap_time :: int
  twap_user :: string
  side :: Side
  sizeUsd :: real
  durationMinutes :: int
  twap_price :: "real option"

record SimulatedPosition =
  position_id :: string
  created_at :: string
  entry_price :: real
  direction :: Side
  status :: Status
  amount_usd :: real
  leverage :: real
  close_price :: "real option"
  pnl_percent :: "real option"
  trigger_id :: "string option"
  end_time :: "int option"

text \<open>The arguments of one call \<open>openPosition(direction, price, triggerId, endTime)\<close>.\<close>

record OpenCommand =
  open_direction :: Side
  open_price :: real
  open_triggerId :: string
  open_endTime :: int

text \<open>The arguments of one call \<open>closePosition(id, status, closePrice, pnlPercent)\<close>.\<close>

record CloseCommand =
  close_id :: string
  close_status :: Status
  close_at :: real
  close_pnl :: real

subsection \<open>checkTriggers\<close>

text \<open>Line 133: the trigger ids of the stored positions, without the missing and the empty
  ones (\<open>filter(Boolean)\<close>).\<close>

definition existingTriggerIds_of :: "SimulatedPosition list \<Rightarrow> string set" where
  "existingTriggerIds_of existingPositions =
     set (filter (\<lambda>tid. tid \<noteq> []) (List.map_filter trigger_id existingPositions))"

text \<open>\<open>t.price || currentPrice\<close>: the fallback is taken for a missing and for a zero price.\<close>

definition price_or :: "real option \<Rightarrow> real \<Rightarrow> real" where
  "price_or p currentPrice =
     (case p of None \<Rightarrow> currentPrice | Some v \<Rightarrow> if v = 0 then currentPrice else v)"

definition side_name :: "Side \<Rightarrow> string" where
  "side_name sd = (case sd of BUY \<Rightarrow> ''BUY'' | SELL \<Rightarrow> ''SELL'')"

definition order_endTime :: "EnrichedTwap \<Rightarrow> int" where
  "order_endTime t = twap_time t + durationMinutes t * 60 * 1000"

text \<open>Lines 137-149: one round of the large-order pass, on the calls made so far and the set
  of trigger ids.\<close>

definition large_order_step ::
  "real \<Rightarrow> EnrichedTwap \<Rightarrow> OpenCommand list \<times> string set \<Rightarrow> OpenCommand list \<times> string set"
where
  "large_order_step currentPrice t acc =
     (if sizeUsd t > 1000000
      then (let triggerId = ''large_'' @ twap_id t in
            if triggerId \<notin> snd acc
            then (fst acc @ [\<lparr>open_direction = side t,
                              open_price = price_or (twap_price t) currentPrice,
                              open_triggerId = triggerId,
                              open_endTime = order_endTime t\<rparr>],
                  insert triggerId (snd acc))
            else acc)
      else acc)"

definition WINDOW_MS :: int where
  "WINDOW_MS = 10 * 60 * 1000"

text \<open>Lines 170-179 and 180-189: the test of one side of a window.  The first component
  counts how far the loop index has been moved ahead.\<close>

definition dense_side ::
  "Side \<Rightarrow> real \<Rightarrow> EnrichedTwap list \<Rightarrow> nat \<times> string set \<times> OpenCommand list
     \<Rightarrow> nat \<times> string set \<times> OpenCommand list"
where
  "dense_side sd currentPrice inWindow acc =
     (case acc of (skip, ids, cmds) \<Rightarrow>
        if length (filter (\<lambda>t. side t = sd) inWindow) \<ge> 10
        then (let triggerId = ''dense_'' @ twap_id (hd inWindow) @ ''_'' @ side_name sd in
              if triggerId \<notin> ids
              then (let lastTwap = last inWindow in
                    (skip + (length inWindow - 1),
                     insert triggerId ids,
                     cmds @ [\<lparr>open_direction = sd,
                              open_price = price_or (twap_price lastTwap) currentPrice,
                              open_triggerId = triggerId,
                              open_endTime = order_endTime lastTwap\<rparr>]))
              else acc)
        else acc)"

text \<open>Lines 161-190: the body of the window loop at index \<open>i\<close>; the loop only runs it
  when ten orders are left from \<open>i\<close> on, so the window is not empty.\<close>

definition dense_window ::
  "real \<Rightarrow> EnrichedTwap list \<Rightarrow> nat \<Rightarrow> string set \<Rightarrow> OpenCommand list
     \<Rightarrow> nat \<times> string set \<times> OpenCommand list"
where
  "dense_window currentPrice sortedTwaps i ids cmds =
     (let window = drop i sortedTwaps;
          startTime = twap_time (hd window);
          endTime = startTime + WINDOW_MS;
          inWindow = filter (\<lambda>t. twap_time t \<le> endTime) window
      in if length inWindow \<ge> 10
         then dense_side SELL currentPrice inWindow
                (dense_side BUY currentPrice inWindow (0, ids, cmds))
         else (0, ids, cmds))"

text \<open>Line 160: \<open>for (let i = 0; i <= sortedTwaps.length - 10; i++)\<close>, with the index
  moved ahead inside the body.\<close>

function dense_loop ::
  "real \<Rightarrow> EnrichedTwap list \<Rightarrow> nat \<Rightarrow> string set \<Rightarrow> OpenCommand list \<Rightarrow> OpenCommand list"
where
  "dense_loop currentPrice sortedTwaps i ids cmds =
     (if i + 10 \<le> length sortedTwaps
      then (case dense_window currentPrice sortedTwaps i ids cmds of
              (skip, ids', cmds') \<Rightarrow> dense_loop currentPrice sortedTwaps (Suc (i + skip)) ids' cmds')
      else cmds)"
  by pat_completeness auto
termination
  by (relation "measure (\<lambda>(currentPrice, sortedTwaps, i, ids, cmds). length sortedTwaps - i)") auto

declare dense_loop.simps [simp del]

definition checkTriggers ::
  "EnrichedTwap list \<Rightarrow> real \<Rightarrow> SimulatedPosition list \<Rightarrow> OpenCommand list"
where
  "checkTriggers currentTwaps currentPrice existingPositions =
     (if currentTwaps = [] \<or> currentPrice = 0 then []
      else (let existingTriggerIds = existingTriggerIds_of existingPositions;
                large = fold (large_order_step currentPrice) currentTwaps ([], existingTriggerIds);
                sortedTwaps = sort_key twap_time currentTwaps
            in if length sortedTwaps < 10 then fst large
               else dense_loop currentPrice sortedTwaps 0 (snd large) (fst large)))"

text \<open>The calls of the two passes are told apart by the prefix of their trigger id.\<close>

definition is_large_command :: "OpenCommand \<Rightarrow> bool" where
  "is_large_command cmd = prefix ''large_'' (open_triggerId cmd)"

definition is_dense_command :: "OpenCommand \<Rightarrow> bool" where
  "is_dense_command cmd = prefix ''dense_'' (open_triggerId cmd)"

text \<open>The time between the earliest and the latest order of a list.\<close>

definition time_span :: "EnrichedTwap list \<Rightarrow> int" where
  "time_span ts = Max (set (map twap_time ts)) - Min (set (map twap_time ts))"

subsection \<open>The position monitor\<close>

definition pnlPercent_of :: "real \<Rightarrow> SimulatedPosition \<Rightarrow> real" where
  "pnlPercent_of hypePrice pos =
     (let rawPnl = (if direction pos = BUY
                    then (hypePrice - entry_price pos) / entry_price pos
                    else (entry_price pos - hypePrice) / entry_price pos)
      in rawPnl * leverage pos * 100)"

text \<open>Lines 203-228: what the monitor does with one position at the price \<open>hypePrice\<close>
  and the clock reading \<open>now\<close>: the call of \<open>closePosition\<close> it makes, if any.\<close>

definition pnl_exit :: "real \<Rightarrow> int \<Rightarrow> SimulatedPosition \<Rightarrow> CloseCommand option" where
  "pnl_exit hypePrice now pos =
     (if status pos \<noteq> OPEN then None
      else (let pnlPercent = pnlPercent_of hypePrice pos in
            if (case end_time pos of None \<Rightarrow> False | Some e \<Rightarrow> now > e)
            then Some \<lparr>close_id = position_id pos, close_status = CLOSED_TIME,
                       close_at = hypePrice, close_pnl = pnlPercent\<rparr>
            else if pnlPercent \<ge> 20
            then Some \<lparr>close_id = position_id pos, close_status = CLOSED_TP,
                       close_at = hypePrice, close_pnl = pnlPercent\<rparr>
            else if pnlPercent \<le> - 20
            then Some \<lparr>close_id = position_id pos, close_status = CLOSED_SL,
                       close_at = hypePrice, close_pnl = pnlPercent\<rparr>
            else None))"

text \<open>Lines 200-230: the effect on the whole list of positions.\<close>

definition pnl_monitor :: "real \<Rightarrow> int \<Rightarrow> SimulatedPosition list \<Rightarrow> CloseCommand list" where
  "pnl_monitor hypePrice now positions =
     (if hypePrice = 0 \<or> positions = [] then []
      else List.map_filter (pnl_exit hypePrice now) positions)"

text \<open>The PATCH handler of the positions route: a request without an id is refused, any
  other one rewrites status, close price and PnL of the rows with that id.\<close>

definition patch_position :: "CloseCommand \<Rightarrow> SimulatedPosition list \<Rightarrow> SimulatedPosition list" where
  "patch_position cmd store =
     (if close_id cmd = [] then store
      else map (\<lambda>p. if position_id p = close_id cmd
                     then p\<lparr>status := close_status cmd,
                            close_price := Some (close_at cmd),
                            pnl_percent := Some (close_pnl cmd)\<rparr>
                     else p) store)"

subsection \<open>Sample data for the concrete instances\<close>

definition sample_position :: "Status \<Rightarrow> SimulatedPosition" where
  "sample_position st =
     \<lparr>position_id = ''p1'', created_at = ''2025-01-01T00:00:00Z'', entry_price = 30,
      direction = BUY, status = st, amount_usd = 1000, leverage = 5,
      close_price = Some 36, pnl_percent = Some 100, trigger_id = Some ''large_a'',
      end_time = Some 1000\<rparr>"

definition sample_order :: "string \<Rightarrow> int \<Rightarrow> Side \<Rightarrow> real \<Rightarrow> EnrichedTwap" where
  "sample_order ident tm sd usd =
     \<lparr>twap_id = ident, twap_time = tm, twap_user = ''0xabc'', side = sd, sizeUsd = usd,
      durationMinutes = 30, twap_price = None\<rparr>"

text \<open>Ten BUY orders, newest first as the feed delivers them: nine of them one minute
  apart from time 0 on, the latest one at \<open>lastTime\<close>.\<close>

definition ten_buys :: "int \<Rightarrow> EnrichedTwap list" where
  "ten_buys lastTime =
     [sample_order ''t9'' lastTime BUY 50000, sample_order ''t8'' 480000 BUY 50000,
      sample_order ''t7'' 420000 BUY 50000, sample_order ''t6'' 360000 BUY 50000,
      sample_order ''t5'' 300000 BUY 50000, sample_order ''t4'' 240000 BUY 50000,
      sample_order ''t3'' 180000 BUY 50000, sample_order ''t2'' 120000 BUY 50000,
      sample_order ''t1'' 60000 BUY 50000, sample_order ''t0'' 0 BUY 50000]"

text \<open>A bid ladder with one deep level just below the price 30.\<close>

definition deep_bid :: "L2BookLevel list" where
  "deep_bid = [\<lparr>px = Some (59 / 2), sz = Some 10000000, level_n = 1\<rparr>]"

section \<open>Properties of the cascade simulator\<close>

subsection \<open>The loop, round by round\<close>

lemma scan_upto_0:
  "scan_upto t c oi p ab 0 = scan_init t c"
  by (simp add: scan_upto_def)

lemma scan_upto_Suc:
  "scan_upto t c oi p ab (Suc n) = scan_bin t c oi p ab n (scan_upto t c oi p ab n)"
  by (simp add: scan_upto_def)

lemma scan_bin_price:
  "currentBinPrice (scan_bin t c oi p ab i s) = currentBinPrice s - binStep_of c"
  by (simp add: scan_bin_def Let_def)

lemma scan_bin_cumSell:
  "cumSellHype (scan_bin t c oi p ab i s) =
     cumSellHype s + stepSellHype_of c oi p (currentBinPrice s - binStep_of c)"
  by (simp add: scan_bin_def Let_def)

lemma scan_bin_cumBid:
  "cumBidHype (scan_bin t c oi p ab i s) =
     fold (add_bid (currentBinPrice s - binStep_of c) (binStep_of c)) ab (cumBidHype s)"
  by (simp add: scan_bin_def Let_def)

lemma scan_bin_found:
  "foundFloor (scan_bin t c oi p ab i s) =
     (foundFloor s \<or>
      (currentBinPrice (scan_bin t c oi p ab i s) \<le> t \<and>
       cumSellHype (scan_bin t c oi p ab i s) \<ge> cumBidHype (scan_bin t c oi p ab i s)))"
  by (auto simp add: scan_bin_def Let_def)

lemma scan_bin_floor:
  "floorPrice (scan_bin t c oi p ab i s) =
     (if \<not> foundFloor s \<and> foundFloor (scan_bin t c oi p ab i s)
      then currentBinPrice (scan_bin t c oi p ab i s) else floorPrice s)"
  by (auto simp add: scan_bin_def Let_def)

lemma bin_price_upto:
  "currentBinPrice (scan_upto t c oi p ab n) = c - real n * binStep_of c"
  by (induction n) (simp_all add: scan_upto_0 scan_upto_Suc scan_bin_price scan_init_def algebra_simps)

lemma core_target_free:
  "cumSellHype (scan_upto t c oi p ab n) = cumSellHype (scan_upto t' c oi p ab n) \<and>
   cumBidHype (scan_upto t c oi p ab n) = cumBidHype (scan_upto t' c oi p ab n)"
  by (induction n)
     (simp_all add: scan_upto_0 scan_upto_Suc scan_bin_cumSell scan_bin_cumBid scan_init_def bin_price_upto)

lemma floor_le_target:
  "floorPrice (scan_upto t c oi p ab n) \<le> t"
proof (induction n)
  case 0
  show ?case by (simp add: scan_upto_0 scan_init_def)
next
  case (Suc n)
  then show ?case
    by (auto simp add: scan_upto_Suc scan_bin_floor scan_bin_found)
qed

subsection \<open>Where the floor is found\<close>

lemma found_iff:
  "foundFloor (scan_upto t c oi p ab n) \<longleftrightarrow> (\<exists>i<n. floor_hit t c oi p ab i)"
proof (induction n)
  case 0
  show ?case by (simp add: scan_upto_0 scan_init_def)
next
  case (Suc n)
  have "foundFloor (scan_upto t c oi p ab (Suc n)) \<longleftrightarrow>
        foundFloor (scan_upto t c oi p ab n) \<or> floor_hit t c oi p ab n"
    unfolding floor_hit_def Let_def scan_upto_Suc by (rule scan_bin_found)
  with Suc show ?case by (auto simp add: less_Suc_eq)
qed

lemma floor_least:
  "foundFloor (scan_upto t c oi p ab n) \<Longrightarrow>
   floorPrice (scan_upto t c oi p ab n) =
     currentBinPrice (scan_upto t c oi p ab (Suc (LEAST i. floor_hit t c oi p ab i)))"
proof (induction n)
  case 0
  then show ?case by (simp add: scan_upto_0 scan_init_def)
next
  case (Suc n)
  show ?case
  proof (cases "foundFloor (scan_upto t c oi p ab n)")
    case True
    with Suc.IH show ?thesis by (simp add: scan_upto_Suc scan_bin_floor)
  next
    case False
    then have none: "\<forall>i<n. \<not> floor_hit t c oi p ab i" by (simp add: found_iff)
    from Suc.prems False have hit: "floor_hit t c oi p ab n"
      by (auto simp add: found_iff less_Suc_eq)
    have "(LEAST i. floor_hit t c oi p ab i) = n"
    proof (rule Least_equality)
      show "floor_hit t c oi p ab n" by (rule hit)
    next
      fix y assume "floor_hit t c oi p ab y"
      with none show "n \<le> y" by (meson not_le)
    qed
    moreover have "floorPrice (scan_upto t c oi p ab (Suc n)) =
                   currentBinPrice (scan_upto t c oi p ab (Suc n))"
      using False Suc.prems by (simp add: scan_upto_Suc scan_bin_floor)
    ultimately show ?thesis by simp
  qed
qed

lemma floor_hit_target:
  "floor_hit t c oi p ab i \<longleftrightarrow>
     c - real (Suc i) * binStep_of c \<le> t \<and>
     cumSellHype (scan_upto t' c oi p ab (Suc i)) \<ge> cumBidHype (scan_upto t' c oi p ab (Suc i))"
  unfolding floor_hit_def Let_def bin_price_upto
  using core_target_free [of t c oi p ab "Suc i" t'] by simp

lemma floor_monotone:
  assumes lt: "t2 < t1"
    and f1: "foundFloor (scan_upto t1 c oi p ab n)"
    and f2: "foundFloor (scan_upto t2 c oi p ab n)"
  shows "floorPrice (scan_upto t2 c oi p ab n) \<le> floorPrice (scan_upto t1 c oi p ab n)"
proof -
  define i1 where "i1 = (LEAST i. floor_hit t1 c oi p ab i)"
  define i2 where "i2 = (LEAST i. floor_hit t2 c oi p ab i)"
  from f1 obtain j1 where "floor_hit t1 c oi p ab j1" by (auto simp add: found_iff)
  then have h1: "floor_hit t1 c oi p ab i1" unfolding i1_def by (rule LeastI)
  from f2 obtain j2 where "floor_hit t2 c oi p ab j2" by (auto simp add: found_iff)
  then have h2: "floor_hit t2 c oi p ab i2" unfolding i2_def by (rule LeastI)
  from h2 lt have "floor_hit t1 c oi p ab i2"
    by (simp add: floor_hit_target [where t' = t2])
  then have le: "i1 \<le> i2" unfolding i1_def by (rule Least_le)
  have fl1: "floorPrice (scan_upto t1 c oi p ab n) = c - real (Suc i1) * binStep_of c"
    using floor_least [OF f1] by (simp only: bin_price_upto i1_def)
  have fl2: "floorPrice (scan_upto t2 c oi p ab n) = c - real (Suc i2) * binStep_of c"
    using floor_least [OF f2] by (simp only: bin_price_upto i2_def)
  show ?thesis
  proof (cases "0 \<le> binStep_of c")
    case True
    from le have "real (Suc i1) \<le> real (Suc i2)" by simp
    then have "real (Suc i1) * binStep_of c \<le> real (Suc i2) * binStep_of c"
      using True by (rule mult_right_mono)
    then show ?thesis by (simp add: fl1 fl2)
  next
    case False
    from le have "real (Suc i1) \<le> real (Suc i2)" by simp
    then have "real (Suc i2) * binStep_of c \<le> real (Suc i1) * binStep_of c"
      using False by (intro mult_right_mono_neg) simp_all
    with h2 have "c - real (Suc i1) * binStep_of c \<le> t2"
      by (simp add: floor_hit_target [where t' = t2])
    with h1 have "floor_hit t2 c oi p ab i1"
      by (simp add: floor_hit_target [where t' = t2])
    then have "i2 \<le> i1" unfolding i2_def by (rule Least_le)
    with le have "i1 = i2" by simp
    then show ?thesis by (simp add: fl1 fl2)
  qed
qed

lemma binStep_ratio: "c \<noteq> 0 \<Longrightarrow> binStep_of c / c = 1 / 500"
  by (simp add: binStep_of_def RANGE_PCT_def BINS_COUNT_def)

lemma stepSell_nonneg:
  assumes "0 \<le> oi * param_k p"
  shows "0 \<le> stepSellHype_of c oi p b"
proof (cases "c = 0")
  case True
  then show ?thesis by (simp add: stepSellHype_of_def Let_def)
next
  case False
  have "0 \<le> (oi * param_k p) * exp (param_a p * ((c - b) / c - param_x0 p)) * (1 / 500)"
    using assms by simp
  then show ?thesis
    using False by (simp add: stepSellHype_of_def Let_def binStep_ratio mult.assoc)
qed

lemma stepSell_pos:
  assumes "0 < oi * param_k p" and "c \<noteq> 0" and "param_x0 p < (c - b) / c"
  shows "0 < stepSellHype_of c oi p b"
proof -
  have "0 < (oi * param_k p) * exp (param_a p * ((c - b) / c - param_x0 p)) * (1 / 500)"
    using assms(1) by simp
  then show ?thesis
    using assms(2,3) by (simp add: stepSellHype_of_def Let_def binStep_ratio mult.assoc)
qed

lemma cumSell_step_mono:
  "0 \<le> oi * param_k p \<Longrightarrow>
   cumSellHype (scan_upto t c oi p ab n) \<le> cumSellHype (scan_upto t c oi p ab (Suc n))"
  using stepSell_nonneg [of oi p c] by (simp add: scan_upto_Suc scan_bin_cumSell)

lemma cumSell_mono:
  "0 \<le> oi * param_k p \<Longrightarrow> n \<le> m \<Longrightarrow>
   cumSellHype (scan_upto t c oi p ab n) \<le> cumSellHype (scan_upto t c oi p ab m)"
proof (induction m)
  case 0
  then show ?case by simp
next
  case (Suc m)
  show ?case
  proof (cases "n = Suc m")
    case True
    then show ?thesis by simp
  next
    case False
    with Suc.prems have "n \<le> m" by simp
    with Suc have "cumSellHype (scan_upto t c oi p ab n) \<le> cumSellHype (scan_upto t c oi p ab m)"
      by simp
    also have "\<dots> \<le> cumSellHype (scan_upto t c oi p ab (Suc m))"
      using Suc.prems(1) by (rule cumSell_step_mono)
    finally show ?thesis .
  qed
qed

lemma cumSell_nonneg:
  "0 \<le> oi * param_k p \<Longrightarrow> 0 \<le> cumSellHype (scan_upto t c oi p ab n)"
  using cumSell_mono [of oi p 0 n t c ab] by (simp add: scan_upto_0 scan_init_def)

lemma cumBid_no_bids: "cumBidHype (scan_upto t c oi p [] n) = 0"
  by (induction n) (simp_all add: scan_upto_0 scan_init_def scan_upto_Suc scan_bin_cumBid)

lemma activeBids_empty: "activeBids_of [] = []"
  by (simp add: activeBids_of_def)

subsection \<open>Pressure, empty bid ladders and the shape of the result\<close>

lemma stepSell_spec:
  "stepSellHype_of c (oi * longRatio p) p b = spec_bin_pressure oi p c (binStep_of c) b"
  by (simp add: stepSellHype_of_def spec_bin_pressure_def Let_def mult.assoc)

lemma cumSell_sum:
  "cumSellHype (scan_upto t c oi p ab n) =
     (\<Sum>i<n. stepSellHype_of c oi p (c - real (Suc i) * binStep_of c))"
  by (induction n)
     (simp_all add: scan_upto_0 scan_init_def scan_upto_Suc scan_bin_cumSell bin_price_upto
        algebra_simps)

lemma empty_bids_hit:
  "0 \<le> oi * param_k p \<Longrightarrow>
   floor_hit t c oi p [] i \<longleftrightarrow> c - real (Suc i) * binStep_of c \<le> t"
  using cumSell_nonneg [of oi p t c "[]" "Suc i"]
  by (simp add: floor_hit_def Let_def bin_price_upto cumBid_no_bids)

lemma binStep_pos: "0 < c \<Longrightarrow> 0 < binStep_of c"
  by (simp add: binStep_of_def RANGE_PCT_def BINS_COUNT_def)

lemma bin_price_antimono:
  "0 < c \<Longrightarrow> i \<le> j \<Longrightarrow> c - real (Suc j) * binStep_of c \<le> c - real (Suc i) * binStep_of c"
proof -
  assume "0 < c" and "i \<le> j"
  then have "real (Suc i) * binStep_of c \<le> real (Suc j) * binStep_of c"
    using binStep_pos [of c] by (intro mult_right_mono) simp_all
  then show ?thesis by simp
qed

lemma empty_bids_floor:
  assumes k: "0 \<le> oi * param_k p" and n: "i < n" and le: "c - real (Suc i) * binStep_of c \<le> t"
  shows "foundFloor (scan_upto t c oi p [] n) \<and>
         floorPrice (scan_upto t c oi p [] n) =
           c - real (Suc (LEAST j. c - real (Suc j) * binStep_of c \<le> t)) * binStep_of c"
proof -
  have hit: "floor_hit t c oi p [] i" using k le by (simp add: empty_bids_hit)
  with n have f: "foundFloor (scan_upto t c oi p [] n)" by (auto simp add: found_iff)
  have "(LEAST j. floor_hit t c oi p [] j) = (LEAST j. c - real (Suc j) * binStep_of c \<le> t)"
    using k by (simp add: empty_bids_hit)
  with floor_least [OF f] f show ?thesis by (simp add: bin_price_upto)
qed

lemma result_finalPrice:
  "finalPrice (simulateLongCascade t c oi h b p) = floorPrice (scan_all t c oi b p) \<or>
   finalPrice (simulateLongCascade t c oi h b p) = t"
  by (simp add: simulateLongCascade_def Let_def)

lemma result_found:
  "foundFloor (scan_all t c oi b p) \<Longrightarrow>
   finalPrice (simulateLongCascade t c oi h b p) = floorPrice (scan_all t c oi b p) \<and>
   totalLiquidationTriggered (simulateLongCascade t c oi h b p) =
     cumSellHype (scan_all t c oi b p) * floorPrice (scan_all t c oi b p) \<and>
   steps (simulateLongCascade t c oi h b p) = steps_acc (scan_all t c oi b p)"
  by (simp add: simulateLongCascade_def Let_def)

lemma result_not_found:
  "\<not> foundFloor (scan_all t c oi b p) \<Longrightarrow>
   finalPrice (simulateLongCascade t c oi h b p) = t \<and>
   totalLiquidationTriggered (simulateLongCascade t c oi h b p) =
     cumSellHype (scan_all t c oi b p) * t \<and>
   steps (simulateLongCascade t c oi h b p) =
     steps_acc (scan_all t c oi b p) @ [no_floor_step c t (cumSellHype (scan_all t c oi b p))]"
  by (simp add: simulateLongCascade_def Let_def)

lemma example_params: "0 \<le> 10000000 * longRatio default_params * param_k default_params"
  by (simp add: default_params_def)

lemma empty_bids_found_all:
  assumes "0 \<le> oi * longRatio p * param_k p" and "c - real BINS_COUNT * binStep_of c \<le> t"
  shows "foundFloor (scan_all t c oi [] p)"
proof -
  have "c - real (Suc 99) * binStep_of c \<le> t" using assms(2) by (simp add: BINS_COUNT_def)
  with assms(1) have "floor_hit t c (oi * longRatio p) p [] 99" by (simp add: empty_bids_hit)
  moreover have "(99::nat) < BINS_COUNT" by (simp add: BINS_COUNT_def)
  ultimately have "\<exists>i<BINS_COUNT. floor_hit t c (oi * longRatio p) p [] i" by blast
  then show ?thesis by (simp add: scan_all_def activeBids_empty found_iff)
qed

lemma empty_bids_highest_bin:
  assumes k: "0 \<le> oi * longRatio p * param_k p"
    and low: "c - real BINS_COUNT * binStep_of c \<le> t"
  shows "\<exists>m<BINS_COUNT.
           finalPrice (simulateLongCascade t c oi h [] p) = c - real (Suc m) * binStep_of c \<and>
           c - real (Suc m) * binStep_of c \<le> t \<and>
           (\<forall>j. c - real (Suc j) * binStep_of c \<le> t \<longrightarrow> m \<le> j)"
proof -
  define m where "m = (LEAST j. c - real (Suc j) * binStep_of c \<le> t)"
  have l99: "c - real (Suc 99) * binStep_of c \<le> t" using low by (simp add: BINS_COUNT_def)
  then have mle: "c - real (Suc m) * binStep_of c \<le> t" unfolding m_def by (rule LeastI)
  have least: "m \<le> j" if "c - real (Suc j) * binStep_of c \<le> t" for j
    unfolding m_def using that by (rule Least_le)
  from least [OF l99] have mlt: "m < BINS_COUNT" by (simp add: BINS_COUNT_def)
  have "foundFloor (scan_upto t c (oi * longRatio p) p [] BINS_COUNT) \<and>
        floorPrice (scan_upto t c (oi * longRatio p) p [] BINS_COUNT) =
          c - real (Suc m) * binStep_of c"
    unfolding m_def by (rule empty_bids_floor [OF k _ l99]) (simp add: BINS_COUNT_def)
  then have "finalPrice (simulateLongCascade t c oi h [] p) = c - real (Suc m) * binStep_of c"
    using result_found [of t c oi "[]" p h] by (simp add: scan_all_def activeBids_empty)
  with mle mlt least show ?thesis by blast
qed

lemma scan_all_pressure:
  "cumSellHype (scan_all targetPrice currentPrice openInterest bids params) =
     (\<Sum>i<BINS_COUNT.
        spec_bin_pressure openInterest params currentPrice (binStep_of currentPrice)
          (currentPrice - real (Suc i) * binStep_of currentPrice))"
  by (simp add: scan_all_def cumSell_sum stepSell_spec)

subsection \<open>The worked example: price 30, target 27, open interest 10,000,000, no bids\<close>

lemma least_bin_example: "(LEAST j. 30 - real (Suc j) * binStep_of 30 \<le> 27) = 49"
proof (rule Least_equality)
  show "30 - real (Suc 49) * binStep_of 30 \<le> 27"
    by (simp add: binStep_of_def RANGE_PCT_def BINS_COUNT_def)
next
  fix y assume "30 - real (Suc y) * binStep_of 30 \<le> 27"
  then have "50 \<le> real (Suc y)"
    by (simp add: binStep_of_def RANGE_PCT_def BINS_COUNT_def)
  then show "49 \<le> y" by simp
qed

lemma example_floor:
  "foundFloor (scan_upto 27 30 (10000000 * longRatio default_params) default_params [] n) \<longleftrightarrow> 50 \<le> n"
proof -
  have k: "0 \<le> 10000000 * longRatio default_params * param_k default_params"
    by (simp add: default_params_def)
  have "(\<exists>i<n. 30 - real (Suc i) * binStep_of 30 \<le> 27) \<longleftrightarrow> 50 \<le> n"
  proof
    assume "\<exists>i<n. 30 - real (Suc i) * binStep_of 30 \<le> 27"
    then obtain i where "i < n" and "30 - real (Suc i) * binStep_of 30 \<le> 27" by blast
    then have "50 \<le> real (Suc i)" by (simp add: binStep_of_def RANGE_PCT_def BINS_COUNT_def)
    with \<open>i < n\<close> show "50 \<le> n" by simp
  next
    assume "50 \<le> n"
    then have "49 < n" by simp
    moreover have "30 - real (Suc 49) * binStep_of 30 \<le> 27"
      by (simp add: binStep_of_def RANGE_PCT_def BINS_COUNT_def)
    ultimately show "\<exists>i<n. 30 - real (Suc i) * binStep_of 30 \<le> 27" by blast
  qed
  then show ?thesis using k by (simp add: found_iff empty_bids_hit)
qed

lemma example_result:
  "finalPrice (simulateLongCascade 27 30 10000000 [] [] default_params) = 27"
proof -
  have "foundFloor (scan_upto 27 30 (10000000 * longRatio default_params) default_params [] BINS_COUNT) \<and>
        floorPrice (scan_upto 27 30 (10000000 * longRatio default_params) default_params [] BINS_COUNT) =
          30 - real (Suc (LEAST j. 30 - real (Suc j) * binStep_of 30 \<le> 27)) * binStep_of 30"
    by (rule empty_bids_floor [OF example_params, of 99])
       (simp_all add: BINS_COUNT_def binStep_of_def RANGE_PCT_def)
  then have "foundFloor (scan_all 27 30 10000000 [] default_params) \<and>
             floorPrice (scan_all 27 30 10000000 [] default_params) = 30 - real (Suc 49) * binStep_of 30"
    by (simp only: scan_all_def activeBids_empty least_bin_example)
  then have "finalPrice (simulateLongCascade 27 30 10000000 [] [] default_params) =
             30 - real (Suc 49) * binStep_of 30"
    using result_found [of 27 30 10000000 "[]" default_params "[]"] by simp
  then show ?thesis by (simp add: binStep_of_def RANGE_PCT_def BINS_COUNT_def)
qed

text \<open>The trace stops growing once the floor is found; its last step is then the
  intersection step.\<close>

lemma scan_bin_steps_found:
  "foundFloor s \<Longrightarrow> steps_acc (scan_bin t c oi p ab i s) = steps_acc s"
  by (simp add: scan_bin_def Let_def)

lemma scan_bin_steps_hit:
  "\<not> foundFloor s \<Longrightarrow> foundFloor (scan_bin t c oi p ab i s) \<Longrightarrow>
   steps_acc (scan_bin t c oi p ab i s) =
     steps_acc s @
     [intersection_step c (currentBinPrice (scan_bin t c oi p ab i s))
        (cumSellHype (scan_bin t c oi p ab i s))]"
  by (simp add: scan_bin_def Let_def split: if_splits)

lemma steps_frozen:
  "foundFloor (scan_upto t c oi p ab n) \<Longrightarrow> n \<le> m \<Longrightarrow>
   steps_acc (scan_upto t c oi p ab m) = steps_acc (scan_upto t c oi p ab n)"
proof (induction m)
  case 0
  then show ?case by simp
next
  case (Suc m)
  show ?case
  proof (cases "n = Suc m")
    case True
    then show ?thesis by simp
  next
    case False
    with Suc.prems have nm: "n \<le> m" by simp
    from Suc.prems(1) obtain i where "i < n" and "floor_hit t c oi p ab i"
      by (auto simp add: found_iff)
    with nm have "\<exists>i<m. floor_hit t c oi p ab i" by (meson less_le_trans)
    then have "foundFloor (scan_upto t c oi p ab m)" by (simp add: found_iff)
    then have "steps_acc (scan_upto t c oi p ab (Suc m)) = steps_acc (scan_upto t c oi p ab m)"
      by (simp add: scan_upto_Suc scan_bin_steps_found)
    with Suc.IH [OF Suc.prems(1) nm] show ?thesis by simp
  qed
qed

lemma example_trace:
  "last (steps (simulateLongCascade 27 30 10000000 [] [] default_params)) =
     intersection_step 30 27
       (cumSellHype (scan_upto 27 30 (10000000 * longRatio default_params) default_params [] 50))"
proof -
  let ?S = "scan_upto 27 30 (10000000 * longRatio default_params) default_params []"
  have f50: "foundFloor (?S (Suc 49))" and n49: "\<not> foundFloor (?S 49)"
    by (simp_all add: example_floor)
  then have "steps_acc (?S (Suc 49)) =
             steps_acc (?S 49) @ [intersection_step 30 (currentBinPrice (?S (Suc 49))) (cumSellHype (?S (Suc 49)))]"
    unfolding scan_upto_Suc by (intro scan_bin_steps_hit)
  moreover have "currentBinPrice (?S (Suc 49)) = 27"
    by (simp add: bin_price_upto binStep_of_def RANGE_PCT_def BINS_COUNT_def)
  moreover have "steps_acc (?S 100) = steps_acc (?S (Suc 49))"
    by (rule steps_frozen [OF f50]) simp
  moreover have "steps (simulateLongCascade 27 30 10000000 [] [] default_params) = steps_acc (?S 100)"
    using result_found [of 27 30 10000000 "[]" default_params "[]"]
    by (simp add: scan_all_def activeBids_empty example_floor BINS_COUNT_def)
  ultimately show ?thesis by simp
qed

subsection \<open>The worked example with one deep bid: no floor\<close>

lemma exp_le_27: "x \<le> 3 \<Longrightarrow> exp (x::real) \<le> 27"
proof -
  assume "x \<le> 3"
  then have "exp x \<le> exp (3::real)" by simp
  also have "exp (3::real) = exp 1 ^ 3" using exp_of_nat_mult [of 3 "1::real"] by simp
  also have "\<dots> \<le> 3 ^ 3" by (rule power_mono) (simp_all add: exp_le)
  finally show ?thesis by simp
qed

lemma example_step_bound:
  assumes "i < 100"
  shows "stepSellHype_of 30 (10000000 * longRatio default_params) default_params
           (30 - real (Suc i) * binStep_of 30) \<le> 58320"
proof -
  from assms have "real i < 100" by simp
  then have "14 * ((30 - (30 - real (Suc i) * binStep_of 30)) / 30 - 5 / 100) \<le> 3"
    by (simp add: binStep_of_def RANGE_PCT_def BINS_COUNT_def field_simps)
  then have "exp (14 * ((30 - (30 - real (Suc i) * binStep_of 30)) / 30 - 5 / 100)) \<le> 27"
    by (rule exp_le_27)
  then show ?thesis
    by (simp add: stepSellHype_of_def Let_def default_params_def binStep_ratio)
qed

lemma example_cumSell_bound:
  assumes "n \<le> 100"
  shows "cumSellHype (scan_upto t 30 (10000000 * longRatio default_params) default_params ab n)
           \<le> 5832000"
proof -
  have "(\<Sum>i<n. stepSellHype_of 30 (10000000 * longRatio default_params) default_params
                  (30 - real (Suc i) * binStep_of 30)) \<le> (\<Sum>i<n. 58320)"
    using assms by (intro sum_mono example_step_bound) simp
  also have "\<dots> \<le> 5832000" using assms by simp
  finally show ?thesis by (simp only: cumSell_sum)
qed

lemma deep_bid_active: "activeBids_of deep_bid = [\<lparr>bid_px = 59 / 2, bid_sz = 10000000\<rparr>]"
  by (simp add: activeBids_of_def deep_bid_def List.map_filter_def parse_bid_def)

lemma deep_bid_depth:
  "cumBidHype (scan_upto t 30 oi p (activeBids_of deep_bid) n) = (if 9 \<le> n then 10000000 else 0)"
proof (induction n)
  case 0
  show ?case by (simp add: scan_upto_0 scan_init_def)
next
  case (Suc n)
  have "real n < 9 \<longleftrightarrow> n < 9" by simp
  then show ?case
    using Suc
    by (auto simp add: scan_upto_Suc scan_bin_cumBid bin_price_upto deep_bid_active add_bid_def
        binStep_of_def RANGE_PCT_def BINS_COUNT_def)
qed

lemma deep_bid_no_hit:
  "i < 100 \<Longrightarrow>
   \<not> floor_hit 27 30 (10000000 * longRatio default_params) default_params (activeBids_of deep_bid) i"
proof (cases "49 \<le> i")
  case False
  then have "real (Suc i) < 50" by simp
  then show ?thesis
    by (simp add: floor_hit_def Let_def bin_price_upto binStep_of_def RANGE_PCT_def BINS_COUNT_def)
next
  case True
  assume "i < 100"
  then have "cumSellHype (scan_upto 27 30 (10000000 * longRatio default_params) default_params
               (activeBids_of deep_bid) (Suc i)) \<le> 5832000"
    by (intro example_cumSell_bound) simp
  with True show ?thesis by (simp add: floor_hit_def Let_def deep_bid_depth)
qed

subsection \<open>The same example with the target 26, strictly inside a bin\<close>

text \<open>The bins around the target are those of rounds 66 and 67, at about 26.04 and 25.98; the
  target is 0.02 away from the nearer one, far more than the rounding of the bin prices.\<close>

lemma least_bin_inside: "(LEAST j. 30 - real (Suc j) * binStep_of 30 \<le> 26) = 66"
proof (rule Least_equality)
  show "30 - real (Suc 66) * binStep_of 30 \<le> 26"
    by (simp add: binStep_of_def RANGE_PCT_def BINS_COUNT_def)
next
  fix y assume "30 - real (Suc y) * binStep_of 30 \<le> 26"
  then have "66 < real (Suc y)"
    by (simp add: binStep_of_def RANGE_PCT_def BINS_COUNT_def)
  then show "66 \<le> y" by simp
qed

lemma inside_result:
  "finalPrice (simulateLongCascade 26 30 10000000 [] [] default_params) =
     currentBinPrice
       (scan_upto 26 30 (10000000 * longRatio default_params) default_params (activeBids_of []) 67)"
proof -
  have "foundFloor (scan_upto 26 30 (10000000 * longRatio default_params) default_params [] BINS_COUNT) \<and>
        floorPrice (scan_upto 26 30 (10000000 * longRatio default_params) default_params [] BINS_COUNT) =
          30 - real (Suc (LEAST j. 30 - real (Suc j) * binStep_of 30 \<le> 26)) * binStep_of 30"
    by (rule empty_bids_floor [OF example_params, of 99])
       (simp_all add: BINS_COUNT_def binStep_of_def RANGE_PCT_def)
  then have "foundFloor (scan_all 26 30 10000000 [] default_params) \<and>
             floorPrice (scan_all 26 30 10000000 [] default_params) = 30 - real (Suc 66) * binStep_of 30"
    by (simp only: scan_all_def activeBids_empty least_bin_inside)
  then have "finalPrice (simulateLongCascade 26 30 10000000 [] [] default_params) =
             30 - real (Suc 66) * binStep_of 30"
    using result_found [of 26 30 10000000 "[]" default_params "[]"] by simp
  then show ?thesis by (simp add: bin_price_upto)
qed

subsection \<open>The claims about the simulator\<close>

text \<open>C1.  When a floor is found the result is meant to carry the floor price and the sell
  pressure accumulated when the floor bin was reached, times the floor price.  The loop
  has no exit at the floor: it goes on adding pressure for the remaining bins, and the
  result multiplies the total of all \<open>BINS_COUNT\<close> bins by the floor price.  In the worked
  example the floor is bin 50 (price 27): no floor after 49 rounds, a floor after 50, and
  the returned value is the pressure of all 100 bins times 27, strictly more than the
  pressure at the floor times 27, which is what the intersection step of the trace
  records.\<close>

theorem total_not_at_floor:
  "\<not> foundFloor (scan_upto 27 30 (10000000 * longRatio default_params) default_params (activeBids_of []) 49) \<and>
   foundFloor (scan_upto 27 30 (10000000 * longRatio default_params) default_params (activeBids_of []) 50) \<and>
   finalPrice (simulateLongCascade 27 30 10000000 [] [] default_params) = 27 \<and>
   liquidatedValue (last (steps (simulateLongCascade 27 30 10000000 [] [] default_params))) =
     cumSellHype (scan_upto 27 30 (10000000 * longRatio default_params) default_params (activeBids_of []) 50) * 27 \<and>
   totalLiquidationTriggered (simulateLongCascade 27 30 10000000 [] [] default_params) =
     cumSellHype (scan_upto 27 30 (10000000 * longRatio default_params) default_params (activeBids_of []) 100) * 27 \<and>
   cumSellHype (scan_upto 27 30 (10000000 * longRatio default_params) default_params (activeBids_of []) 50) * 27
     < totalLiquidationTriggered (simulateLongCascade 27 30 10000000 [] [] default_params)"
proof -
  let ?S = "scan_upto 27 30 (10000000 * longRatio default_params) default_params []"
  have found: "foundFloor (scan_all 27 30 10000000 [] default_params)"
    by (simp add: scan_all_def activeBids_empty example_floor BINS_COUNT_def)
  have total: "totalLiquidationTriggered (simulateLongCascade 27 30 10000000 [] [] default_params) =
               cumSellHype (?S 100) * 27"
    using result_found [OF found, of "[]"] example_result
    by (simp add: scan_all_def activeBids_empty BINS_COUNT_def)
  have step: "liquidatedValue (last (steps (simulateLongCascade 27 30 10000000 [] [] default_params))) =
              cumSellHype (?S 50) * 27"
    by (simp add: example_trace intersection_step_def)
  have "0 < stepSellHype_of 30 (10000000 * longRatio default_params) default_params
              (30 - real (Suc 50) * binStep_of 30)"
    by (rule stepSell_pos) (simp_all add: default_params_def binStep_of_def RANGE_PCT_def BINS_COUNT_def)
  then have "cumSellHype (?S 50) < cumSellHype (?S (Suc 50))"
    by (simp only: scan_upto_Suc scan_bin_cumSell bin_price_upto) (simp add: algebra_simps)
  then have "cumSellHype (?S 50) < cumSellHype (?S 51)" by simp
  also have "\<dots> \<le> cumSellHype (?S 100)"
    by (rule cumSell_mono [OF example_params]) simp
  finally have "cumSellHype (?S 50) * 27 < cumSellHype (?S 100) * 27" by simp
  with total step show ?thesis by (simp add: activeBids_empty example_floor example_result)
qed

text \<open>C2, as stated, fails: with an empty bid ladder the result is not the lowest scanned bin
  price.  At the price 30 with the target 26 the floor is the bin of round 67, between 25
  and 26, and the lowest scanned bin, that of round 100, is below 25.\<close>

theorem empty_bids_lowest_bin_counterexample:
  "finalPrice (simulateLongCascade 26 30 10000000 [] [] default_params) =
     currentBinPrice
       (scan_upto 26 30 (10000000 * longRatio default_params) default_params (activeBids_of []) 67) \<and>
   25 < finalPrice (simulateLongCascade 26 30 10000000 [] [] default_params) \<and>
   finalPrice (simulateLongCascade 26 30 10000000 [] [] default_params) \<le> 26 \<and>
   currentBinPrice (scan_all 26 30 10000000 [] default_params) < 25 \<and>
   finalPrice (simulateLongCascade 26 30 10000000 [] [] default_params)
     \<noteq> currentBinPrice (scan_all 26 30 10000000 [] default_params)"
  by (simp add: inside_result scan_all_def bin_price_upto binStep_of_def RANGE_PCT_def BINS_COUNT_def)

text \<open>C2, amended.  With an empty bid ladder, a non-negative product
  \<open>openInterest * longRatio * k\<close> and a target that is not below the lowest scanned bin,
  the final price is the price of the first scanned bin at or below the target: it is the
  price of some bin \<open>m\<close>, it is at most the target, and every bin scanned before \<open>m\<close> is
  strictly above the target.\<close>

theorem empty_bids_first_bin_below_target:
  assumes "0 \<le> openInterest * longRatio params * param_k params"
    and "currentBinPrice (scan_all targetPrice currentPrice openInterest [] params) \<le> targetPrice"
  shows "\<exists>m<BINS_COUNT.
           finalPrice (simulateLongCascade targetPrice currentPrice openInterest heatmap [] params) =
             currentBinPrice
               (scan_upto targetPrice currentPrice (openInterest * longRatio params) params [] (Suc m)) \<and>
           finalPrice (simulateLongCascade targetPrice currentPrice openInterest heatmap [] params)
             \<le> targetPrice \<and>
           (\<forall>j<m. targetPrice <
              currentBinPrice
                (scan_upto targetPrice currentPrice (openInterest * longRatio params) params [] (Suc j)))"
proof -
  from assms(2) have "currentPrice - real BINS_COUNT * binStep_of currentPrice \<le> targetPrice"
    by (simp add: scan_all_def bin_price_upto)
  from empty_bids_highest_bin [OF assms(1) this, of heatmap]
  obtain m where m: "m < BINS_COUNT"
    and fp: "finalPrice (simulateLongCascade targetPrice currentPrice openInterest heatmap [] params) =
             currentPrice - real (Suc m) * binStep_of currentPrice"
    and le: "currentPrice - real (Suc m) * binStep_of currentPrice \<le> targetPrice"
    and least: "\<forall>j. currentPrice - real (Suc j) * binStep_of currentPrice \<le> targetPrice \<longrightarrow> m \<le> j"
    by blast
  from least have "\<forall>j<m. targetPrice < currentPrice - real (Suc j) * binStep_of currentPrice"
    by (meson not_le)
  with m fp le show ?thesis by (auto simp add: bin_price_upto)
qed

theorem empty_bids_first_bin_below_target_witness:
  "0 \<le> 10000000 * longRatio default_params * param_k default_params \<and>
   currentBinPrice (scan_all 26 30 10000000 [] default_params) \<le> 26 \<and>
   (\<exists>m<BINS_COUNT.
      finalPrice (simulateLongCascade 26 30 10000000 [] [] default_params) =
        currentBinPrice
          (scan_upto 26 30 (10000000 * longRatio default_params) default_params [] (Suc m)) \<and>
      finalPrice (simulateLongCascade 26 30 10000000 [] [] default_params) \<le> 26 \<and>
      (\<forall>j<m. 26 <
         currentBinPrice
           (scan_upto 26 30 (10000000 * longRatio default_params) default_params [] (Suc j))))"
proof -
  have b: "currentBinPrice (scan_all 26 30 10000000 [] default_params) \<le> 26"
    by (simp add: scan_all_def bin_price_upto binStep_of_def RANGE_PCT_def BINS_COUNT_def)
  from empty_bids_first_bin_below_target [OF example_params b, of "[]"] example_params b
  show ?thesis by blast
qed

text \<open>C3.  \<open>simulateLongCascade\<close> runs its scan with
  \<open>longOpenInterest = openInterest * longRatio\<close>.  In every round the cumulative sell
  pressure grows by the increment of the specification at the price of the bin of that
  round, which is the current price less that many steps: the exponential expression when
  the drawdown of the bin exceeds \<open>x0\<close>, and zero otherwise.  So the pressure at the end of
  the scan is the sum of these increments over the \<open>BINS_COUNT\<close> bins, and the value the
  function returns is that sum times the final price.\<close>

theorem bin_pressure_increment:
  "scan_all targetPrice currentPrice openInterest bids params =
     scan_upto targetPrice currentPrice (openInterest * longRatio params) params
       (activeBids_of bids) BINS_COUNT \<and>
   cumSellHype
       (scan_upto targetPrice currentPrice (openInterest * longRatio params) params
          (activeBids_of bids) (Suc i)) =
     cumSellHype
       (scan_upto targetPrice currentPrice (openInterest * longRatio params) params
          (activeBids_of bids) i)
     + spec_bin_pressure openInterest params currentPrice (binStep_of currentPrice)
         (currentBinPrice
            (scan_upto targetPrice currentPrice (openInterest * longRatio params) params
               (activeBids_of bids) (Suc i))) \<and>
   currentBinPrice
       (scan_upto targetPrice currentPrice (openInterest * longRatio params) params
          (activeBids_of bids) (Suc i)) =
     currentPrice - real (Suc i) * binStep_of currentPrice \<and>
   cumSellHype (scan_all targetPrice currentPrice openInterest bids params) =
     (\<Sum>j<BINS_COUNT.
        spec_bin_pressure openInterest params currentPrice (binStep_of currentPrice)
          (currentPrice - real (Suc j) * binStep_of currentPrice)) \<and>
   totalLiquidationTriggered
       (simulateLongCascade targetPrice currentPrice openInterest heatmap bids params) =
     (\<Sum>j<BINS_COUNT.
        spec_bin_pressure openInterest params currentPrice (binStep_of currentPrice)
          (currentPrice - real (Suc j) * binStep_of currentPrice))
     * finalPrice (simulateLongCascade targetPrice currentPrice openInterest heatmap bids params)"
proof -
  let ?S = "scan_upto targetPrice currentPrice (openInterest * longRatio params) params
              (activeBids_of bids)"
  let ?sum = "\<Sum>j<BINS_COUNT.
        spec_bin_pressure openInterest params currentPrice (binStep_of currentPrice)
          (currentPrice - real (Suc j) * binStep_of currentPrice)"
  have run: "scan_all targetPrice currentPrice openInterest bids params = ?S BINS_COUNT"
    by (simp add: scan_all_def)
  have price: "currentBinPrice (?S (Suc i)) = currentPrice - real (Suc i) * binStep_of currentPrice"
    by (rule bin_price_upto)
  have round: "cumSellHype (?S (Suc i)) =
               cumSellHype (?S i)
               + spec_bin_pressure openInterest params currentPrice (binStep_of currentPrice)
                   (currentBinPrice (?S (Suc i)))"
    by (simp add: scan_upto_Suc scan_bin_cumSell scan_bin_price stepSell_spec)
  have sum: "cumSellHype (scan_all targetPrice currentPrice openInterest bids params) = ?sum"
    by (rule scan_all_pressure)
  have "totalLiquidationTriggered
          (simulateLongCascade targetPrice currentPrice openInterest heatmap bids params) =
        cumSellHype (scan_all targetPrice currentPrice openInterest bids params)
        * finalPrice (simulateLongCascade targetPrice currentPrice openInterest heatmap bids params)"
    by (simp add: simulateLongCascade_def Let_def)
  then have total: "totalLiquidationTriggered
          (simulateLongCascade targetPrice currentPrice openInterest heatmap bids params) =
        ?sum
        * finalPrice (simulateLongCascade targetPrice currentPrice openInterest heatmap bids params)"
    by (simp only: sum)
  from run round price sum total show ?thesis by (intro conjI)
qed

text \<open>C4.  Two calls that differ only in the heatmap return the same result, trace included;
  in particular the empty heatmap gives the result of any other heatmap.\<close>

theorem heatmap_not_consulted:
  "simulateLongCascade targetPrice currentPrice openInterest heatmap bids params =
     simulateLongCascade targetPrice currentPrice openInterest heatmap' bids params \<and>
   simulateLongCascade targetPrice currentPrice openInterest heatmap bids params =
     simulateLongCascade targetPrice currentPrice openInterest [] bids params"
  by (simp add: simulateLongCascade_def)

text \<open>C5.  For the same current price, open interest, bids and parameters and two targets
  \<open>t2 < t1\<close> for both of which a floor is found, the final price for \<open>t2\<close> is at most the
  final price for \<open>t1\<close>.\<close>

theorem floor_monotone_in_target:
  assumes "t2 < t1"
    and "foundFloor (scan_all t1 currentPrice openInterest bids params)"
    and "foundFloor (scan_all t2 currentPrice openInterest bids params)"
  shows "finalPrice (simulateLongCascade t2 currentPrice openInterest heatmap2 bids params)
           \<le> finalPrice (simulateLongCascade t1 currentPrice openInterest heatmap1 bids params)"
  using assms floor_monotone [of t2 t1 currentPrice "openInterest * longRatio params" params
      "activeBids_of bids" BINS_COUNT]
  by (simp add: result_found) (simp add: scan_all_def)

theorem floor_monotone_in_target_witness:
  "(26::real) < 27 \<and>
   foundFloor (scan_all 27 30 10000000 [] default_params) \<and>
   foundFloor (scan_all 26 30 10000000 [] default_params) \<and>
   finalPrice (simulateLongCascade 26 30 10000000 [] [] default_params)
     \<le> finalPrice (simulateLongCascade 27 30 10000000 [] [] default_params)"
proof -
  have f1: "foundFloor (scan_all 27 30 10000000 [] default_params)"
    by (rule empty_bids_found_all [OF example_params])
       (simp add: binStep_of_def RANGE_PCT_def BINS_COUNT_def)
  have f2: "foundFloor (scan_all 26 30 10000000 [] default_params)"
    by (rule empty_bids_found_all [OF example_params])
       (simp add: binStep_of_def RANGE_PCT_def BINS_COUNT_def)
  have lt: "(26::real) < 27" by simp
  from floor_monotone_in_target [OF lt f1 f2, of "[]" "[]"] f1 f2 lt show ?thesis by simp
qed

text \<open>C9.  When no scanned bin at or below the target has a cumulative sell pressure that
  reaches the cumulative bid depth, the function returns the target as final price, and
  its trace is the trace of the loop followed by exactly one more step, whose description
  says that the liquidity depth exceeds the estimated sell pressure.\<close>

theorem no_floor_result:
  assumes "\<forall>i<BINS_COUNT.
             \<not> floor_hit targetPrice currentPrice (openInterest * longRatio params) params
                 (activeBids_of bids) i"
  shows "finalPrice (simulateLongCascade targetPrice currentPrice openInterest heatmap bids params)
           = targetPrice \<and>
         steps (simulateLongCascade targetPrice currentPrice openInterest heatmap bids params) =
           steps_acc (scan_all targetPrice currentPrice openInterest bids params) @
           [\<lparr>startPrice = currentPrice, endPrice = targetPrice,
             liquidatedValue =
               cumSellHype (scan_all targetPrice currentPrice openInterest bids params) * targetPrice,
             description =
               [Lit ''No total cascade floor found. Liquidity depth exceeds estimated sell pressure at target.'']\<rparr>]"
proof -
  from assms have "\<not> foundFloor (scan_all targetPrice currentPrice openInterest bids params)"
    by (simp add: scan_all_def found_iff)
  then show ?thesis
    using result_not_found [of targetPrice currentPrice openInterest bids params heatmap]
    by (simp add: no_floor_step_def)
qed

theorem no_floor_result_witness:
  "finalPrice (simulateLongCascade 27 30 10000000 [] deep_bid default_params) = 27 \<and>
   steps (simulateLongCascade 27 30 10000000 [] deep_bid default_params) =
     steps_acc (scan_all 27 30 10000000 deep_bid default_params) @
     [\<lparr>startPrice = 30, endPrice = 27,
       liquidatedValue = cumSellHype (scan_all 27 30 10000000 deep_bid default_params) * 27,
       description =
         [Lit ''No total cascade floor found. Liquidity depth exceeds estimated sell pressure at target.'']\<rparr>]"
proof -
  have "\<forall>i<BINS_COUNT.
          \<not> floor_hit 27 30 (10000000 * longRatio default_params) default_params
              (activeBids_of deep_bid) i"
    by (simp add: BINS_COUNT_def deep_bid_no_hit)
  then show ?thesis by (rule no_floor_result)
qed

text \<open>C10.  For every input the final price is at most the target price.\<close>

theorem finalPrice_le_target:
  "finalPrice (simulateLongCascade targetPrice currentPrice openInterest heatmap bids params)
     \<le> targetPrice"
  using floor_le_target [of targetPrice currentPrice "openInterest * longRatio params" params
      "activeBids_of bids" BINS_COUNT]
  by (simp add: simulateLongCascade_def scan_all_def Let_def)

section \<open>Properties of the trigger engine and the position monitor\<close>

subsection \<open>What the two passes of checkTriggers produce\<close>

lemma large_not_dense: "is_large_command cmd \<Longrightarrow> \<not> is_dense_command cmd"
  by (auto simp add: is_large_command_def is_dense_command_def prefix_def)

lemma large_id_not_dense: "prefix ''large_'' x \<Longrightarrow> \<not> prefix ''dense_'' x"
  by (auto simp add: prefix_def)

lemma large_step_noop:
  "(sizeUsd t > 1000000 \<longrightarrow> ''large_'' @ twap_id t \<in> snd acc) \<Longrightarrow>
   large_order_step currentPrice t acc = acc"
  by (simp add: large_order_step_def Let_def)

lemma large_pass_noop:
  "\<forall>t\<in>set ts. sizeUsd t > 1000000 \<longrightarrow> ''large_'' @ twap_id t \<in> ids \<Longrightarrow>
   fold (large_order_step currentPrice) ts (cmds, ids) = (cmds, ids)"
  by (induction ts) (simp_all add: large_step_noop)

lemma large_step_shape:
  "\<exists>ls. fst (large_order_step currentPrice t acc) = fst acc @ ls \<and>
        (\<forall>c\<in>set ls. is_large_command c) \<and>
        (\<forall>x\<in>snd (large_order_step currentPrice t acc). x \<in> snd acc \<or> prefix ''large_'' x)"
  by (simp add: large_order_step_def Let_def is_large_command_def)

lemma large_pass_shape:
  "\<exists>ls. fst (fold (large_order_step currentPrice) ts acc) = fst acc @ ls \<and>
        (\<forall>c\<in>set ls. is_large_command c) \<and>
        (\<forall>x\<in>snd (fold (large_order_step currentPrice) ts acc). x \<in> snd acc \<or> prefix ''large_'' x)"
proof (induction ts arbitrary: acc)
  case Nil
  show ?case by simp
next
  case (Cons t ts)
  obtain l1 where l1: "fst (large_order_step currentPrice t acc) = fst acc @ l1"
      "\<forall>c\<in>set l1. is_large_command c"
      "\<forall>x\<in>snd (large_order_step currentPrice t acc). x \<in> snd acc \<or> prefix ''large_'' x"
    using large_step_shape [of currentPrice t acc] by blast
  obtain l2 where l2:
      "fst (fold (large_order_step currentPrice) ts (large_order_step currentPrice t acc)) =
         fst (large_order_step currentPrice t acc) @ l2"
      "\<forall>c\<in>set l2. is_large_command c"
      "\<forall>x\<in>snd (fold (large_order_step currentPrice) ts (large_order_step currentPrice t acc)).
          x \<in> snd (large_order_step currentPrice t acc) \<or> prefix ''large_'' x"
    using Cons.IH [of "large_order_step currentPrice t acc"] by blast
  have "fst (fold (large_order_step currentPrice) (t # ts) acc) = fst acc @ (l1 @ l2)"
    using l1(1) l2(1) by simp
  moreover have "\<forall>c\<in>set (l1 @ l2). is_large_command c" using l1(2) l2(2) by auto
  moreover have "\<forall>x\<in>snd (fold (large_order_step currentPrice) (t # ts) acc).
                   x \<in> snd acc \<or> prefix ''large_'' x"
    using l1(3) l2(3) by auto
  ultimately show ?case by blast
qed

lemma dense_side_shape:
  "\<exists>ds. snd (snd (dense_side sd currentPrice w (skip, ids, cmds))) = cmds @ ds \<and>
        (\<forall>d\<in>set ds. is_dense_command d)"
  by (simp add: dense_side_def Let_def is_dense_command_def)

lemma dense_window_shape:
  "\<exists>ds. snd (snd (dense_window currentPrice s i ids cmds)) = cmds @ ds \<and>
        (\<forall>d\<in>set ds. is_dense_command d)"
proof (cases "length (filter (\<lambda>t. twap_time t \<le> twap_time (hd (drop i s)) + WINDOW_MS) (drop i s)) \<ge> 10")
  case False
  then show ?thesis by (simp add: dense_window_def Let_def)
next
  case True
  let ?w = "filter (\<lambda>t. twap_time t \<le> twap_time (hd (drop i s)) + WINDOW_MS) (drop i s)"
  obtain sk ids1 cmds1 where b: "dense_side BUY currentPrice ?w (0, ids, cmds) = (sk, ids1, cmds1)"
    by (cases "dense_side BUY currentPrice ?w (0, ids, cmds)") auto
  obtain d1 where d1: "cmds1 = cmds @ d1" "\<forall>d\<in>set d1. is_dense_command d"
    using dense_side_shape [of BUY currentPrice ?w 0 ids cmds] b by auto
  obtain d2 where d2: "snd (snd (dense_side SELL currentPrice ?w (sk, ids1, cmds1))) = cmds1 @ d2"
      "\<forall>d\<in>set d2. is_dense_command d"
    using dense_side_shape [of SELL currentPrice ?w sk ids1 cmds1] by blast
  have "snd (snd (dense_window currentPrice s i ids cmds)) = cmds @ (d1 @ d2)"
    using True b d1(1) d2(1) by (simp add: dense_window_def Let_def)
  moreover have "\<forall>d\<in>set (d1 @ d2). is_dense_command d" using d1(2) d2(2) by auto
  ultimately show ?thesis by blast
qed

lemma dense_loop_shape:
  "\<exists>ds. dense_loop currentPrice s i ids cmds = cmds @ ds \<and> (\<forall>d\<in>set ds. is_dense_command d)"
proof (induction currentPrice s i ids cmds rule: dense_loop.induct)
  case (1 currentPrice s i ids cmds)
  show ?case
  proof (cases "i + 10 \<le> length s")
    case False
    then show ?thesis by (simp add: dense_loop.simps [of currentPrice s i])
  next
    case True
    obtain sk ids1 cmds1 where w: "dense_window currentPrice s i ids cmds = (sk, ids1, cmds1)"
      by (cases "dense_window currentPrice s i ids cmds") auto
    obtain d1 where d1: "cmds1 = cmds @ d1" "\<forall>d\<in>set d1. is_dense_command d"
      using dense_window_shape [of currentPrice s i ids cmds] w by auto
    obtain d2 where d2: "dense_loop currentPrice s (Suc (i + sk)) ids1 cmds1 = cmds1 @ d2"
        "\<forall>d\<in>set d2. is_dense_command d"
      using "1.IH" [OF True w [symmetric] refl] by blast
    have "dense_loop currentPrice s i ids cmds = cmds @ (d1 @ d2)"
      using True w d1(1) d2(1) by (simp add: dense_loop.simps [of currentPrice s i])
    moreover have "\<forall>d\<in>set (d1 @ d2). is_dense_command d" using d1(2) d2(2) by auto
    ultimately show ?thesis by blast
  qed
qed

lemma filter_none: "\<forall>x\<in>set xs. \<not> P x \<Longrightarrow> filter P xs = []"
  by (induction xs) simp_all

lemma dense_loop_stop: "length s < i + 10 \<Longrightarrow> dense_loop currentPrice s i ids cmds = cmds"
  by (simp add: dense_loop.simps [of currentPrice s i])

subsection \<open>The window of ten orders\<close>

lemma sorted_hd_Min:
  assumes "xs \<noteq> []" and "sorted (map f xs)"
  shows "f (hd xs) = Min (set (map f xs))"
proof -
  from assms(1) obtain y ys where xs: "xs = y # ys" by (cases xs) auto
  have "Min (set (map f xs)) = f y"
  proof (rule Min_eqI)
    show "finite (set (map f xs))" by simp
    show "f y \<in> set (map f xs)" by (simp add: xs)
    fix v assume "v \<in> set (map f xs)"
    with assms(2) show "f y \<le> v" by (auto simp add: xs)
  qed
  then show ?thesis by (simp add: xs)
qed

lemma sorted_twaps_start:
  assumes "ts \<noteq> []"
  shows "twap_time (hd (sort_key twap_time ts)) = Min (set (map twap_time ts))"
proof -
  have "sort_key twap_time ts \<noteq> []"
    using assms by (metis length_sort length_0_conv)
  then have "twap_time (hd (sort_key twap_time ts)) = Min (set (map twap_time (sort_key twap_time ts)))"
    by (rule sorted_hd_Min) (rule sorted_sort_key)
  then show ?thesis by simp
qed

lemma window_all:
  assumes "ts \<noteq> []" and "time_span ts \<le> WINDOW_MS"
  shows "filter (\<lambda>t. twap_time t \<le> twap_time (hd (sort_key twap_time ts)) + WINDOW_MS)
           (sort_key twap_time ts) = sort_key twap_time ts"
proof -
  have "\<forall>t\<in>set (sort_key twap_time ts).
          twap_time t \<le> twap_time (hd (sort_key twap_time ts)) + WINDOW_MS"
  proof
    fix t assume "t \<in> set (sort_key twap_time ts)"
    then have "twap_time t \<in> set (map twap_time ts)" by simp
    then have "twap_time t \<le> Max (set (map twap_time ts))" by (intro Max_ge) simp_all
    with assms(2) show "twap_time t \<le> twap_time (hd (sort_key twap_time ts)) + WINDOW_MS"
      by (simp add: time_span_def sorted_twaps_start [OF assms(1)])
  qed
  then show ?thesis by (simp add: filter_id_conv)
qed

lemma window_short:
  assumes "ts \<noteq> []" and "WINDOW_MS < time_span ts"
  shows "length (filter (\<lambda>t. twap_time t \<le> twap_time (hd (sort_key twap_time ts)) + WINDOW_MS)
           (sort_key twap_time ts)) < length ts"
proof -
  have "Max (set (map twap_time ts)) \<in> set (map twap_time ts)"
    using assms(1) by (intro Max_in) simp_all
  then obtain t where t: "t \<in> set ts" "twap_time t = Max (set (map twap_time ts))" by auto
  with assms(2) have "\<not> twap_time t \<le> twap_time (hd (sort_key twap_time ts)) + WINDOW_MS"
    by (simp add: time_span_def sorted_twaps_start [OF assms(1)])
  moreover from t(1) have "t \<in> set (sort_key twap_time ts)" by simp
  ultimately have
    "length (filter (\<lambda>t. twap_time t \<le> twap_time (hd (sort_key twap_time ts)) + WINDOW_MS)
       (sort_key twap_time ts)) < length (sort_key twap_time ts)"
    by (rule length_filter_less [rotated])
  then show ?thesis by simp
qed

lemma dense_silent:
  assumes len: "length ts = 10" and span: "WINDOW_MS < time_span ts"
  shows "filter is_dense_command (checkTriggers ts currentPrice ps) = []"
proof (cases "currentPrice = 0")
  case True
  then show ?thesis by (simp add: checkTriggers_def)
next
  case False
  let ?srt = "sort_key twap_time ts"
  let ?large = "fold (large_order_step currentPrice) ts ([], existingTriggerIds_of ps)"
  from len have ne: "ts \<noteq> []" by auto
  obtain ls where ls: "fst ?large = [] @ ls" "\<forall>c\<in>set ls. is_large_command c"
    using large_pass_shape [of currentPrice ts "([], existingTriggerIds_of ps)"] by auto
  from ls(2) have "\<forall>c\<in>set ls. \<not> is_dense_command c" using large_not_dense by blast
  then have nod: "filter is_dense_command (fst ?large) = []" using ls(1) by (simp add: filter_none)
  have short: "\<not> 10 \<le> length (filter (\<lambda>t. twap_time t \<le> twap_time (hd ?srt) + WINDOW_MS) ?srt)"
    using window_short [OF ne span] len by simp
  have "dense_window currentPrice ?srt 0 (snd ?large) (fst ?large) = (0, snd ?large, fst ?large)"
    using short by (simp add: dense_window_def Let_def)
  then have "dense_loop currentPrice ?srt 0 (snd ?large) (fst ?large) =
             dense_loop currentPrice ?srt (Suc 0) (snd ?large) (fst ?large)"
    using len by (simp add: dense_loop.simps [of currentPrice ?srt 0])
  also have "\<dots> = fst ?large" using len by (simp add: dense_loop_stop)
  finally have "checkTriggers ts currentPrice ps = fst ?large"
    using False ne len by (simp add: checkTriggers_def Let_def)
  with nod show ?thesis by simp
qed

lemma dense_fires:
  assumes len: "length ts = 10" and buys: "\<forall>t\<in>set ts. side t = BUY"
    and cp: "currentPrice \<noteq> 0"
    and fresh: "\<forall>x\<in>existingTriggerIds_of ps. \<not> prefix ''dense_'' x"
    and span: "time_span ts \<le> WINDOW_MS"
  shows "filter is_dense_command (checkTriggers ts currentPrice ps) =
           [\<lparr>open_direction = BUY,
             open_price = price_or (twap_price (last (sort_key twap_time ts))) currentPrice,
             open_triggerId = ''dense_'' @ twap_id (hd (sort_key twap_time ts)) @ ''_BUY'',
             open_endTime = order_endTime (last (sort_key twap_time ts))\<rparr>]"
proof -
  let ?srt = "sort_key twap_time ts"
  let ?large = "fold (large_order_step currentPrice) ts ([], existingTriggerIds_of ps)"
  let ?tid = "''dense_'' @ twap_id (hd ?srt) @ ''_BUY''"
  let ?cmd = "\<lparr>open_direction = BUY,
               open_price = price_or (twap_price (last ?srt)) currentPrice,
               open_triggerId = ?tid, open_endTime = order_endTime (last ?srt)\<rparr>"
  from len have ne: "ts \<noteq> []" by auto
  obtain ls where ls: "fst ?large = [] @ ls" "\<forall>c\<in>set ls. is_large_command c"
      and ids: "\<forall>x\<in>snd ?large. x \<in> existingTriggerIds_of ps \<or> prefix ''large_'' x"
    using large_pass_shape [of currentPrice ts "([], existingTriggerIds_of ps)"] by auto
  from ls(2) have "\<forall>c\<in>set ls. \<not> is_dense_command c" using large_not_dense by blast
  then have nod: "filter is_dense_command (fst ?large) = []" using ls(1) by (simp add: filter_none)
  have "prefix ''dense_'' ?tid" by simp
  with ids fresh have new: "?tid \<notin> snd ?large" using large_id_not_dense by blast
  have win: "filter (\<lambda>t. twap_time t \<le> twap_time (hd ?srt) + WINDOW_MS) ?srt = ?srt"
    using ne span by (rule window_all)
  have allbuy: "filter (\<lambda>t. side t = BUY) ?srt = ?srt"
    using buys by (simp add: filter_id_conv)
  have nosell: "filter (\<lambda>t. side t = SELL) ?srt = []"
    using buys by (simp add: filter_empty_conv)
  have buy: "dense_side BUY currentPrice ?srt (0, snd ?large, fst ?large) =
             (9, insert ?tid (snd ?large), fst ?large @ [?cmd])"
    using new len by (simp add: dense_side_def Let_def allbuy side_name_def)
  have sell: "dense_side SELL currentPrice ?srt (9, insert ?tid (snd ?large), fst ?large @ [?cmd]) =
              (9, insert ?tid (snd ?large), fst ?large @ [?cmd])"
    by (simp add: dense_side_def nosell)
  have "dense_window currentPrice ?srt 0 (snd ?large) (fst ?large) =
        dense_side SELL currentPrice ?srt (dense_side BUY currentPrice ?srt (0, snd ?large, fst ?large))"
    using len by (simp add: dense_window_def Let_def win)
  also have "\<dots> = (9, insert ?tid (snd ?large), fst ?large @ [?cmd])"
    by (simp only: buy sell)
  finally have "dense_window currentPrice ?srt 0 (snd ?large) (fst ?large) =
        (9, insert ?tid (snd ?large), fst ?large @ [?cmd])" .
  then have "dense_loop currentPrice ?srt 0 (snd ?large) (fst ?large) =
             dense_loop currentPrice ?srt (Suc (0 + 9)) (insert ?tid (snd ?large)) (fst ?large @ [?cmd])"
    using len by (simp add: dense_loop.simps [of currentPrice ?srt 0])
  also have "\<dots> = fst ?large @ [?cmd]" using len by (simp add: dense_loop_stop)
  finally have "checkTriggers ts currentPrice ps = fst ?large @ [?cmd]"
    using cp ne len by (simp add: checkTriggers_def Let_def)
  with nod show ?thesis by (simp add: is_dense_command_def)
qed

lemma ten_buys_facts:
  "length (ten_buys x) = 10" "\<forall>t\<in>set (ten_buys x). side t = BUY"
  by (simp_all add: ten_buys_def sample_order_def)

lemma ten_buys_span:
  "time_span (ten_buys 540000) = 9 * 60 * 1000" "time_span (ten_buys 660000) = 11 * 60 * 1000"
  by (simp_all add: ten_buys_def sample_order_def time_span_def)

lemma no_positions: "existingTriggerIds_of [] = {}"
  by (simp add: existingTriggerIds_of_def)

subsection \<open>The position monitor\<close>

lemma closed_no_exit: "status pos \<noteq> OPEN \<Longrightarrow> pnl_exit hypePrice now pos = None"
  by (simp add: pnl_exit_def)

lemma exit_only_open: "pnl_exit hypePrice now pos = Some cmd \<Longrightarrow> status pos = OPEN"
  by (cases "status pos = OPEN") (simp_all add: pnl_exit_def)

lemma exit_id: "pnl_exit hypePrice now pos = Some cmd \<Longrightarrow> close_id cmd = position_id pos"
  by (auto simp add: pnl_exit_def Let_def split: if_splits)

lemma monitor_ids:
  "cmd \<in> set (pnl_monitor hypePrice now ps) \<Longrightarrow>
   \<exists>q\<in>set ps. status q = OPEN \<and> close_id cmd = position_id q"
proof -
  assume "cmd \<in> set (pnl_monitor hypePrice now ps)"
  then obtain q where "q \<in> set ps" and "pnl_exit hypePrice now q = Some cmd"
    by (auto simp add: pnl_monitor_def List.map_filter_def split: if_splits)
  then show ?thesis using exit_only_open exit_id by blast
qed

lemma patch_other:
  "\<forall>cmd\<in>set cmds. close_id cmd \<noteq> position_id p \<Longrightarrow> p \<in> set store \<Longrightarrow>
   p \<in> set (fold patch_position cmds store)"
proof (induction cmds arbitrary: store)
  case Nil
  then show ?case by simp
next
  case (Cons cmd cmds)
  from Cons.prems have "p \<in> set (patch_position cmd store)"
    by (force simp add: patch_position_def)
  with Cons show ?case by simp
qed

text \<open>In a store whose ids are distinct, a position that is not open is still there, as it was,
  after the monitor has run over the whole store and its calls have been applied.\<close>

lemma closed_kept_in_store:
  assumes "distinct (map position_id ps)" and "p \<in> set ps" and "status p \<noteq> OPEN"
  shows "p \<in> set (fold patch_position (pnl_monitor hypePrice now ps) ps)"
proof (rule patch_other)
  show "\<forall>cmd\<in>set (pnl_monitor hypePrice now ps). close_id cmd \<noteq> position_id p"
  proof
    fix cmd assume "cmd \<in> set (pnl_monitor hypePrice now ps)"
    then obtain q where q: "q \<in> set ps" "status q = OPEN" "close_id cmd = position_id q"
      using monitor_ids by blast
    with assms(3) have "q \<noteq> p" by auto
    with assms(1,2) q(1) have "position_id q \<noteq> position_id p"
      by (meson distinct_map inj_onD)
    with q(3) show "close_id cmd \<noteq> position_id p" by simp
  qed
  show "p \<in> set ps" by (rule assms(2))
qed

subsection \<open>The claims about triggers and positions\<close>

text \<open>C6, as stated, fails: ten BUY orders within nine minutes and no stored position at all,
  but a current price of 0 (what the price feed delivers when it has no price).
  \<open>checkTriggers\<close> returns at its first line and makes no call.\<close>

theorem dense_needs_price_counterexample:
  "length (ten_buys 540000) = 10 \<and>
   list_all (\<lambda>t. side t = BUY) (ten_buys 540000) \<and>
   time_span (ten_buys 540000) = 9 * 60 * 1000 \<and>
   existingTriggerIds_of [] = {} \<and>
   filter is_dense_command (checkTriggers (ten_buys 540000) 0 []) = []"
  by (simp add: ten_buys_facts ten_buys_span no_positions list_all_iff checkTriggers_def)

text \<open>C6, amended.  Given exactly ten orders, all of them BUY, no stored trigger id of the dense
  kind and a current price other than 0: if the timestamps span 9 minutes, exactly one
  dense call is made, a BUY, named after the earliest order and priced and timed by the
  latest one; if they span 11 minutes, no dense call is made.\<close>

theorem dense_cluster_threshold:
  assumes "length twaps = 10"
    and "\<forall>t\<in>set twaps. side t = BUY"
    and "currentPrice \<noteq> 0"
    and "\<forall>x\<in>existingTriggerIds_of positions. \<not> prefix ''dense_'' x"
  shows "(time_span twaps = 9 * 60 * 1000 \<longrightarrow>
            filter is_dense_command (checkTriggers twaps currentPrice positions) =
              [\<lparr>open_direction = BUY,
                open_price = price_or (twap_price (last (sort_key twap_time twaps))) currentPrice,
                open_triggerId = ''dense_'' @ twap_id (hd (sort_key twap_time twaps)) @ ''_BUY'',
                open_endTime = order_endTime (last (sort_key twap_time twaps))\<rparr>]) \<and>
         (time_span twaps = 11 * 60 * 1000 \<longrightarrow>
            filter is_dense_command (checkTriggers twaps currentPrice positions) = [])"
proof (intro conjI impI)
  assume "time_span twaps = 9 * 60 * 1000"
  then have "time_span twaps \<le> WINDOW_MS" by (simp add: WINDOW_MS_def)
  with assms show "filter is_dense_command (checkTriggers twaps currentPrice positions) =
              [\<lparr>open_direction = BUY,
                open_price = price_or (twap_price (last (sort_key twap_time twaps))) currentPrice,
                open_triggerId = ''dense_'' @ twap_id (hd (sort_key twap_time twaps)) @ ''_BUY'',
                open_endTime = order_endTime (last (sort_key twap_time twaps))\<rparr>]"
    by (rule dense_fires)
next
  assume "time_span twaps = 11 * 60 * 1000"
  then have "WINDOW_MS < time_span twaps" by (simp add: WINDOW_MS_def)
  with assms(1) show "filter is_dense_command (checkTriggers twaps currentPrice positions) = []"
    by (rule dense_silent)
qed

theorem dense_cluster_threshold_witness:
  "filter is_dense_command (checkTriggers (ten_buys 540000) 30 []) =
     [\<lparr>open_direction = BUY, open_price = 30, open_triggerId = ''dense_t0_BUY'',
       open_endTime = 2340000\<rparr>] \<and>
   filter is_dense_command (checkTriggers (ten_buys 660000) 30 []) = []"
proof -
  have p: "(30::real) \<noteq> 0" by simp
  have e: "\<forall>x\<in>existingTriggerIds_of []. \<not> prefix ''dense_'' x" by (simp add: no_positions)
  have s9: "sort_key twap_time (ten_buys 540000) = rev (ten_buys 540000)"
    by (simp add: ten_buys_def sample_order_def)
  from dense_cluster_threshold [OF ten_buys_facts(1) ten_buys_facts(2) p e, of 540000]
       dense_cluster_threshold [OF ten_buys_facts(1) ten_buys_facts(2) p e, of 660000]
  show ?thesis
    by (simp add: ten_buys_span s9)
       (simp add: ten_buys_def sample_order_def price_or_def order_endTime_def)
qed

text \<open>C7.  If the stored positions carry the trigger id \<open>large_<id>\<close> of every order with
  \<open>sizeUsd > 1,000,000\<close>, then \<open>checkTriggers\<close> on that order list makes no large-order
  call.\<close>

theorem large_order_idempotent:
  assumes "\<forall>t\<in>set currentTwaps.
             sizeUsd t > 1000000 \<longrightarrow>
             ''large_'' @ twap_id t \<in> existingTriggerIds_of existingPositions"
  shows "filter is_large_command (checkTriggers currentTwaps currentPrice existingPositions) = []"
proof -
  let ?ids = "existingTriggerIds_of existingPositions"
  have large: "fold (large_order_step currentPrice) currentTwaps ([], ?ids) = ([], ?ids)"
    using assms by (rule large_pass_noop)
  obtain ds where ds: "dense_loop currentPrice (sort_key twap_time currentTwaps) 0 ?ids [] = [] @ ds"
      "\<forall>d\<in>set ds. is_dense_command d"
    using dense_loop_shape by blast
  from ds(2) have "\<forall>d\<in>set ds. \<not> is_large_command d" using large_not_dense by blast
  then have "filter is_large_command ds = []" by (rule filter_none)
  with ds(1) show ?thesis by (simp add: checkTriggers_def Let_def large)
qed

theorem large_order_idempotent_witness:
  "sizeUsd (sample_order ''a'' 0 BUY 2000000) > 1000000 \<and>
   ''large_a'' \<in> existingTriggerIds_of [sample_position OPEN] \<and>
   filter is_large_command
     (checkTriggers [sample_order ''a'' 0 BUY 2000000, sample_order ''b'' 5 SELL 10] 30
        [sample_position OPEN]) = [] \<and>
   filter is_large_command
     (checkTriggers [sample_order ''a'' 0 BUY 2000000, sample_order ''b'' 5 SELL 10] 30 []) =
     [\<lparr>open_direction = BUY, open_price = 30, open_triggerId = ''large_a'',
       open_endTime = 1800000\<rparr>]"
proof -
  have ids: "existingTriggerIds_of [sample_position OPEN] = {''large_a''}"
    by (simp add: existingTriggerIds_of_def sample_position_def List.map_filter_def)
  have h: "\<forall>t\<in>set [sample_order ''a'' 0 BUY 2000000, sample_order ''b'' 5 SELL 10].
             sizeUsd t > 1000000 \<longrightarrow>
             ''large_'' @ twap_id t \<in> existingTriggerIds_of [sample_position OPEN]"
    by (simp add: ids sample_order_def)
  have fires: "filter is_large_command
     (checkTriggers [sample_order ''a'' 0 BUY 2000000, sample_order ''b'' 5 SELL 10] 30 []) =
     [\<lparr>open_direction = BUY, open_price = 30, open_triggerId = ''large_a'',
       open_endTime = 1800000\<rparr>]"
    by (simp add: checkTriggers_def Let_def no_positions large_order_step_def sample_order_def
          price_or_def order_endTime_def is_large_command_def)
  from large_order_idempotent [OF h, of 30] ids fires show ?thesis
    by (simp add: sample_order_def)
qed

text \<open>C8.  For a position whose status is \<open>CLOSED_TP\<close>, \<open>CLOSED_SL\<close> or \<open>CLOSED_TIME\<close>, the
  monitor makes no call of \<open>closePosition\<close> at any price and any time, so the position stays
  as it is; a call is only ever made for an open position.\<close>

theorem closed_is_terminal:
  assumes "status pos \<in> {CLOSED_TP, CLOSED_SL, CLOSED_TIME}"
  shows "pnl_exit hypePrice now pos = None \<and>
         pnl_monitor hypePrice now [pos] = [] \<and>
         fold patch_position (pnl_monitor hypePrice now [pos]) [pos] = [pos] \<and>
         (\<forall>p cmd. pnl_exit hypePrice now p = Some cmd \<longrightarrow> status p = OPEN)"
proof -
  from assms have "status pos \<noteq> OPEN" by auto
  then have "pnl_exit hypePrice now pos = None" by (rule closed_no_exit)
  then show ?thesis by (auto simp add: pnl_monitor_def List.map_filter_def exit_only_open)
qed

theorem closed_is_terminal_witness:
  "status (sample_position CLOSED_TP) \<in> {CLOSED_TP, CLOSED_SL, CLOSED_TIME} \<and>
   pnl_exit 60 2000 (sample_position CLOSED_TP) = None \<and>
   fold patch_position (pnl_monitor 60 2000 [sample_position CLOSED_TP]) [sample_position CLOSED_TP]
     = [sample_position CLOSED_TP] \<and>
   pnl_exit 60 2000 (sample_position OPEN) \<noteq> None"
proof -
  have a: "status (sample_position CLOSED_TP) \<in> {CLOSED_TP, CLOSED_SL, CLOSED_TIME}"
    by (simp add: sample_position_def)
  have b: "pnl_exit 60 2000 (sample_position OPEN) \<noteq> None"
    by (simp add: pnl_exit_def sample_position_def Let_def)
  from closed_is_terminal [OF a, of 60 2000] a b show ?thesis by simp
qed

end
